theory Spec2Isabelle
  imports Main "HOL-Library.AList"
begin

section \<open>The pub.dev caching proxy (proxy\_cached.py)\<close>

text \<open>
  The proxy is a set of Flask handlers over three collaborators: the cache directory on
  disk, the upstream registry reached through the \<^verbatim>\<open>requests\<close> library, and the
  Flask response constructors. Each handler is a function from the world before the
  request (the cache tree and the log of upstream requests sent so far) to the response
  and the world after it. What the handlers cannot decide themselves is a parameter: the
  replies of the upstream, the disk faults, the JSON decoder and Flask's URL builder.
\<close>

subsection \<open>Bytes, strings and paths\<close>

type_synonym bytes = string

text \<open>
  \<^verbatim>\<open>str.lower()\<close> on header names. Header names are ASCII tokens, so only the letters
  \<^verbatim>\<open>A\<close> to \<^verbatim>\<open>Z\<close> change.
\<close>

definition lower_char :: "char \<Rightarrow> char" where
  "lower_char c =
     (case map_of (zip ''ABCDEFGHIJKLMNOPQRSTUVWXYZ'' ''abcdefghijklmnopqrstuvwxyz'') c of
        None \<Rightarrow> c
      | Some d \<Rightarrow> d)"

definition lower :: "string \<Rightarrow> string" where
  "lower s = map lower_char s"

text \<open>\<^verbatim>\<open>s.endswith(suffix)\<close> and \<^verbatim>\<open>s.rstrip('/')\<close>.\<close>

definition endswith :: "string \<Rightarrow> string \<Rightarrow> bool" where
  "endswith s suf = (length suf \<le> length s \<and> drop (length s - length suf) s = suf)"

definition rstrip_slash :: "string \<Rightarrow> string" where
  "rstrip_slash s = rev (dropWhile (\<lambda>c. c = CHR ''/'') (rev s))"

text \<open>
  \<^verbatim>\<open>os.path.join(a, b)\<close> on POSIX: an absolute second component replaces the first,
  otherwise the two are joined by one separator.
\<close>

definition os_path_join :: "string \<Rightarrow> string \<Rightarrow> string" where
  "os_path_join a b =
     (if b \<noteq> [] \<and> hd b = CHR ''/'' then b
      else if a = [] \<or> last a = CHR ''/'' then a @ b
      else a @ ''/'' @ b)"

definition version_dir :: "string \<Rightarrow> string \<Rightarrow> string \<Rightarrow> string" where
  "version_dir cache_dir name version = os_path_join (os_path_join cache_dir name) version"

text \<open>
  The base name of the archive of a version, \<^verbatim>\<open>f"{name}-{version}.tar.gz"\<close>, and the
  temporary name beside it, \<^verbatim>\<open>filename + '.part'\<close>.
\<close>

definition tar_name :: "string \<Rightarrow> string \<Rightarrow> string" where
  "tar_name name version = name @ ''-'' @ version @ ''.tar.gz''"

definition part_name :: "string \<Rightarrow> string \<Rightarrow> string" where
  "part_name name version = tar_name name version @ ''.part''"

subsection \<open>The cache directory\<close>

text \<open>
  The tree below the cache root, in the layout the program creates:
  \<^verbatim>\<open>{cache_dir}/{name}/{version}/{file}\<close>. A package directory maps version names to
  version directories; a version directory is its listing, the files in the order
  \<^verbatim>\<open>os.listdir\<close> reports them, each with its content. The route converters deliver
  \<^verbatim>\<open>name\<close> and \<^verbatim>\<open>version\<close> as single path components, so the directory
  \<^verbatim>\<open>os.path.join(cache_dir, name, version)\<close> is the entry \<^verbatim>\<open>version\<close> of the entry
  \<^verbatim>\<open>name\<close> of the root. A new file is listed after the files already there, and a
  file that is overwritten keeps its place.
\<close>

type_synonym listing = "(string \<times> bytes) list"

type_synonym cache = "string \<rightharpoonup> (string \<rightharpoonup> listing)"


definition isdir_ver :: "cache \<Rightarrow> string \<Rightarrow> string \<Rightarrow> bool" where
  "isdir_ver c name version =
     (case c name of None \<Rightarrow> False | Some p \<Rightarrow> p version \<noteq> None)"

definition listdir :: "cache \<Rightarrow> string \<Rightarrow> string \<Rightarrow> listing" where
  "listdir c name version =
     (case c name of
        None \<Rightarrow> []
      | Some p \<Rightarrow> (case p version of None \<Rightarrow> [] | Some l \<Rightarrow> l))"

text \<open>\<^verbatim>\<open>os.makedirs(vd, exist_ok=True)\<close>: the missing directories are created empty.\<close>

definition makedirs :: "cache \<Rightarrow> string \<Rightarrow> string \<Rightarrow> cache" where
  "makedirs c name version =
     (case c name of
        None \<Rightarrow> c(name \<mapsto> [version \<mapsto> []])
      | Some p \<Rightarrow> (case p version of None \<Rightarrow> c(name \<mapsto> p(version \<mapsto> [])) | Some l \<Rightarrow> c))"

text \<open>The listing of an existing version directory after the files in it changed.\<close>

definition put_listing :: "cache \<Rightarrow> string \<Rightarrow> string \<Rightarrow> listing \<Rightarrow> cache" where
  "put_listing c name version l =
     (case c name of
        None \<Rightarrow> c
      | Some p \<Rightarrow> (if p version = None then c else c(name \<mapsto> p(version \<mapsto> l))))"



text \<open>
  Files of one version directory: \<^verbatim>\<open>os.path.exists\<close>, \<^verbatim>\<open>os.remove\<close>,
  \<^verbatim>\<open>os.replace\<close>, and a file opened with mode \<^verbatim>\<open>'wb'\<close> and closed with the
  given content.
\<close>

definition file_exists :: "listing \<Rightarrow> string \<Rightarrow> bool" where
  "file_exists l f = (map_of l f \<noteq> None)"

definition os_remove :: "listing \<Rightarrow> string \<Rightarrow> listing" where
  "os_remove l f = AList.delete f l"

definition write_file :: "listing \<Rightarrow> string \<Rightarrow> bytes \<Rightarrow> listing" where
  "write_file l f content = AList.update f content l"

definition os_replace :: "listing \<Rightarrow> string \<Rightarrow> string \<Rightarrow> listing" where
  "os_replace l src dst =
     (case map_of l src of
        None \<Rightarrow> l
      | Some content \<Rightarrow> AList.update dst content (AList.delete src l))"

text \<open>
  \<^verbatim>\<open>cached_tar_path\<close>: the first listed file of the version directory whose name ends
  in \<^verbatim>\<open>.tar.gz\<close>. \<^verbatim>\<open>cached_tar\<close> is that file with its content, which is what
  \<^verbatim>\<open>send_file\<close> reads at the path returned.
\<close>

definition cached_tar :: "cache \<Rightarrow> string \<Rightarrow> string \<Rightarrow> (string \<times> bytes) option" where
  "cached_tar c name version =
     (if \<not> isdir_ver c name version then None
      else find (\<lambda>(f, content). endswith f ''.tar.gz'') (listdir c name version))"

definition cached_tar_path :: "cache \<Rightarrow> string \<Rightarrow> string \<Rightarrow> string \<Rightarrow> string option" where
  "cached_tar_path c cache_dir name version =
     map_option (\<lambda>(f, content). os_path_join (version_dir cache_dir name version) f)
       (cached_tar c name version)"

subsection \<open>JSON documents\<close>

text \<open>
  What \<^verbatim>\<open>r.json()\<close> returns: Python values built from \<^verbatim>\<open>None\<close>, booleans, numbers,
  strings, lists and dictionaries. A dictionary is its items in insertion order; a float is
  a mantissa and an exponent, of which only "is it zero" matters here.
\<close>

datatype json =
    JNull
  | JBool bool
  | JInt int
  | JFloat int int
  | JStr string
  | JArr "json list"
  | JObj "(string \<times> json) list"

text \<open>Python's truth value of a document, as \<^verbatim>\<open>if not ver\<close> tests it.\<close>

fun truthy :: "json \<Rightarrow> bool" where
  "truthy JNull = False"
| "truthy (JBool b) = b"
| "truthy (JInt n) = (n \<noteq> 0)"
| "truthy (JFloat m e) = (m \<noteq> 0)"
| "truthy (JStr s) = (s \<noteq> [])"
| "truthy (JArr xs) = (xs \<noteq> [])"
| "truthy (JObj kv) = (kv \<noteq> [])"

text \<open>
  The items a \<^verbatim>\<open>for\<close> loop takes from a value: the elements of a list, the keys of a
  dictionary, the characters of a string; \<^verbatim>\<open>None\<close> stands for the \<^verbatim>\<open>TypeError\<close>
  of a value that is not iterable.
\<close>

fun iterate :: "json \<Rightarrow> json list option" where
  "iterate (JArr xs) = Some xs"
| "iterate (JObj kv) = Some (map (\<lambda>(k, v). JStr k) kv)"
| "iterate (JStr s) = Some (map (\<lambda>c. JStr [c]) s)"
| "iterate JNull = None"
| "iterate (JBool b) = None"
| "iterate (JInt n) = None"
| "iterate (JFloat m e) = None"

subsection \<open>The upstream registry\<close>

text \<open>
  The arguments of one \<^verbatim>\<open>requests.request\<close> call, and the reply: status, headers, and
  the body as the chunks \<^verbatim>\<open>iter_content\<close> yields. A body that is \<^verbatim>\<open>body_broken\<close>
  raises after its last chunk instead of ending (the connection was lost). Replies that
  repeat a header name are outside the model: \<^verbatim>\<open>headers\<close> is both
  \<^verbatim>\<open>r.headers.items()\<close> and \<^verbatim>\<open>resp.raw.headers.items()\<close>.
\<close>

record up_request =
  rq_method :: string
  rq_url :: string
  rq_params :: "(string \<times> string) list option"
  rq_headers :: "(string \<times> string) list option"
  rq_data :: "bytes option"
  rq_stream :: bool
  rq_timeout :: nat

record up_reply =
  status_code :: int
  headers :: "(string \<times> string) list"
  body_chunks :: "bytes list"
  body_broken :: bool

text \<open>
  A response body being read: the chunks not yet read, whether the stream raises after
  them, and the flag \<^verbatim>\<open>_content_consumed\<close> that \<^verbatim>\<open>requests\<close> sets when an
  iteration has run to the end. The body is read from the connection, so a second
  \<^verbatim>\<open>iter_content\<close> continues where the first one stopped; on a consumed response it
  raises \<^verbatim>\<open>StreamConsumedError\<close> (\<^verbatim>\<open>None\<close> here).
\<close>

datatype stream = Stream (rest: "bytes list") (raises: bool) (content_consumed: bool)

definition fresh_stream :: "up_reply \<Rightarrow> stream" where
  "fresh_stream r = Stream (body_chunks r) (body_broken r) False"

definition iter_content :: "stream \<Rightarrow> stream option" where
  "iter_content s = (if content_consumed s then None else Some s)"

text \<open>\<^verbatim>\<open>r.content\<close>: the whole body, or the exception of a broken one.\<close>

definition content :: "up_reply \<Rightarrow> bytes option" where
  "content r = (if body_broken r then None else Some (concat (body_chunks r)))"

text \<open>\<^verbatim>\<open>r.headers.get(key, default)\<close> of a case-insensitive dictionary.\<close>

definition headers_get :: "(string \<times> string) list \<Rightarrow> string \<Rightarrow> string \<Rightarrow> string" where
  "headers_get hs key dflt =
     (case find (\<lambda>(n, v). lower n = lower key) hs of None \<Rightarrow> dflt | Some (n, v) \<Rightarrow> v)"

subsection \<open>Responses, faults and the world\<close>

datatype exn = OpenError | WriteError | StreamError | ReplaceError

text \<open>
  What a handler returns: \<^verbatim>\<open>abort(code)\<close>, \<^verbatim>\<open>Response(body, status, headers)\<close>,
  \<^verbatim>\<open>send_file(path, as_attachment=True)\<close> with the content of the file at the path,
  \<^verbatim>\<open>jsonify(data), status\<close>, and the 500 response Flask makes of an exception that no
  handler catches.
\<close>

datatype body = Content bytes | Streaming stream

datatype response =
    Abort int
  | Response body int "(string \<times> string) list"
  | Send_file string bytes
  | Jsonify json int
  | Internal_error

fun status_of :: "response \<Rightarrow> int" where
  "status_of (Abort code) = code"
| "status_of (Response b st hs) = st"
| "status_of (Send_file path b) = 200"
| "status_of (Jsonify d st) = st"
| "status_of Internal_error = 500"

text \<open>The bytes of the archive or document the client receives in the response body.\<close>

fun client_bytes :: "response \<Rightarrow> bytes" where
  "client_bytes (Response (Content b) st hs) = b"
| "client_bytes (Response (Streaming s) st hs) = concat (rest s)"
| "client_bytes (Send_file path b) = b"
| "client_bytes (Abort code) = []"
| "client_bytes (Jsonify d st) = []"
| "client_bytes Internal_error = []"

text \<open>
  The disk faults of one request: which of the file system calls of the populate path
  raise. \<^verbatim>\<open>write_fails k\<close> is the write or flush of chunk number \<^verbatim>\<open>k\<close> of the body.
\<close>

record faults =
  makedirs_fails :: bool
  open_fails :: bool
  write_fails :: "nat \<Rightarrow> bool"
  replace_fails :: bool
  remove_fails :: bool

record world =
  fs :: cache
  sent :: "up_request list"

text \<open>
  The configuration and the collaborators: \<^verbatim>\<open>app.config['CACHE_DIR']\<close>, the global
  \<^verbatim>\<open>REAL_PUB\<close>, the upstream (its reply to a request, \<^verbatim>\<open>None\<close> when the transport
  fails), the disk faults, Flask's
  \<^verbatim>\<open>url_for('package_archive', name=name, version=ver, _external=True)\<close> (whose version
  argument is whatever value the document held), the JSON decoder behind
  \<^verbatim>\<open>r.json()\<close>, and \<^verbatim>\<open>str(e)\<close> of an exception.
\<close>

record env =
  cache_dir :: string
  real_pub :: string
  upstream :: "up_request \<Rightarrow> up_reply option"
  disk :: faults
  url_for :: "string \<Rightarrow> json \<Rightarrow> string"
  loads :: "bytes \<Rightarrow> json option"
  str_exn :: "exn \<Rightarrow> string"

text \<open>
  \<^verbatim>\<open>requests.request\<close>: the call is logged; it raises a \<^verbatim>\<open>RequestException\<close>
  (\<^verbatim>\<open>None\<close>) when the transport fails, and also when the body is read eagerly
  (\<^verbatim>\<open>stream=False\<close>) and breaks.
\<close>

definition requests_request :: "env \<Rightarrow> world \<Rightarrow> up_request \<Rightarrow> up_reply option \<times> world" where
  "requests_request e w rq =
     ((case upstream e rq of
         None \<Rightarrow> None
       | Some r \<Rightarrow> (if \<not> rq_stream rq \<and> body_broken r then None else Some r)),
      w\<lparr>sent := sent w @ [rq]\<rparr>)"

definition fetch_upstream ::
  "env \<Rightarrow> world \<Rightarrow> string \<Rightarrow> bool \<Rightarrow> (string \<times> string) list option \<Rightarrow>
   (string \<times> string) list option \<Rightarrow> string \<Rightarrow> bytes option \<Rightarrow> up_reply option \<times> world" where
  "fetch_upstream e w path stream params hdrs method data =
     requests_request e w
       \<lparr>rq_method = method, rq_url = rstrip_slash (real_pub e) @ path, rq_params = params,
        rq_headers = hdrs, rq_data = data, rq_stream = stream, rq_timeout = 30\<rparr>"

text \<open>\<^verbatim>\<open>Response(r.content, status=r.status_code, headers=r.headers.items())\<close>.\<close>

definition pass_through :: "up_reply \<Rightarrow> response" where
  "pass_through r =
     (case content r of
        None \<Rightarrow> Internal_error
      | Some b \<Rightarrow> Response (Content b) (status_code r) (headers r))"

subsection \<open>The metadata endpoints\<close>

text \<open>
  The loop of \<^verbatim>\<open>api_package\<close> over the version entries. An entry that is not a
  dictionary has no \<^verbatim>\<open>get\<close> (\<^verbatim>\<open>None\<close>: the \<^verbatim>\<open>AttributeError\<close>); an entry whose
  \<^verbatim>\<open>version\<close> is missing or falsy is skipped; every other entry gets its
  \<^verbatim>\<open>archive_url\<close> assigned, in place.
\<close>

definition rewrite_entry :: "(string \<Rightarrow> json \<Rightarrow> string) \<Rightarrow> string \<Rightarrow> json \<Rightarrow> json option" where
  "rewrite_entry uf name v =
     (case v of
        JObj kv \<Rightarrow>
          (case map_of kv ''version'' of
             None \<Rightarrow> Some v
           | Some ver \<Rightarrow>
               (if \<not> truthy ver then Some v
                else Some (JObj (AList.update ''archive_url'' (JStr (uf name ver)) kv))))
      | _ \<Rightarrow> None)"

fun rewrite_versions :: "(string \<Rightarrow> json \<Rightarrow> string) \<Rightarrow> string \<Rightarrow> json list \<Rightarrow> json list option" where
  "rewrite_versions uf name [] = Some []"
| "rewrite_versions uf name (v # vs) =
     (case rewrite_entry uf name v of
        None \<Rightarrow> None
      | Some v' \<Rightarrow> map_option ((#) v') (rewrite_versions uf name vs))"

text \<open>
  The document after the loop: the entries were changed inside the list that
  \<^verbatim>\<open>data['versions']\<close> holds; the default \<^verbatim>\<open>[]\<close> of \<^verbatim>\<open>data.get\<close> and the keys of
  a dictionary or the characters of a string are not part of the document.
\<close>

definition set_versions :: "(string \<times> json) list \<Rightarrow> json list \<Rightarrow> (string \<times> json) list" where
  "set_versions kv vs' =
     (case map_of kv ''versions'' of
        Some (JArr vs) \<Rightarrow> AList.update ''versions'' (JArr vs') kv
      | _ \<Rightarrow> kv)"

definition rewrite_package :: "(string \<Rightarrow> json \<Rightarrow> string) \<Rightarrow> string \<Rightarrow> json \<Rightarrow> json option" where
  "rewrite_package uf name data =
     (case data of
        JObj kv \<Rightarrow>
          (case iterate (case map_of kv ''versions'' of None \<Rightarrow> JArr [] | Some x \<Rightarrow> x) of
             None \<Rightarrow> None
           | Some vs \<Rightarrow>
               (case rewrite_versions uf name vs of
                  None \<Rightarrow> None
                | Some vs' \<Rightarrow> Some (JObj (set_versions kv vs'))))
      | _ \<Rightarrow> None)"

definition api_package :: "env \<Rightarrow> world \<Rightarrow> string \<Rightarrow> response \<times> world" where
  "api_package e w name =
     (case fetch_upstream e w (''/api/packages/'' @ name) False None None ''get'' None of
        (None, w1) \<Rightarrow> (Abort 502, w1)
      | (Some r, w1) \<Rightarrow>
          (if status_code r \<noteq> 200 then (pass_through r, w1)
           else (case Option.bind (content r) (loads e) of
                   None \<Rightarrow> (Internal_error, w1)
                 | Some data \<Rightarrow>
                     (case rewrite_package (url_for e) name data of
                        None \<Rightarrow> (Internal_error, w1)
                      | Some data' \<Rightarrow> (Jsonify data' 200, w1)))))"

text \<open>
  \<^verbatim>\<open>data['archive_url'] = ...\<close> of \<^verbatim>\<open>api_package_version\<close>: item assignment with a
  string key, a \<^verbatim>\<open>TypeError\<close> on anything but a dictionary.
\<close>

definition set_archive_url :: "string \<Rightarrow> json \<Rightarrow> json option" where
  "set_archive_url url data =
     (case data of
        JObj kv \<Rightarrow> Some (JObj (AList.update ''archive_url'' (JStr url) kv))
      | _ \<Rightarrow> None)"

definition api_package_version :: "env \<Rightarrow> world \<Rightarrow> string \<Rightarrow> string \<Rightarrow> response \<times> world" where
  "api_package_version e w name version =
     (case fetch_upstream e w (''/api/packages/'' @ name @ ''/versions/'' @ version @ ''.json'')
             False None None ''get'' None of
        (None, w1) \<Rightarrow> (Abort 502, w1)
      | (Some r, w1) \<Rightarrow>
          (if status_code r \<noteq> 200 then (pass_through r, w1)
           else (case Option.bind (content r) (loads e) of
                   None \<Rightarrow> (Internal_error, w1)
                 | Some data \<Rightarrow>
                     (case set_archive_url (url_for e name (JStr version)) data of
                        None \<Rightarrow> (Internal_error, w1)
                      | Some data' \<Rightarrow> (Jsonify data' 200, w1)))))"

text \<open>
  Reading a package document: the values bound to \<^verbatim>\<open>archive_url\<close> in the entries of
  its \<^verbatim>\<open>versions\<close> list, entry by entry.
\<close>

fun entry_links :: "json \<Rightarrow> json list" where
  "entry_links (JObj kv) = map snd (filter (\<lambda>(k, v). k = ''archive_url'') kv)"
| "entry_links JNull = []"
| "entry_links (JBool b) = []"
| "entry_links (JInt n) = []"
| "entry_links (JFloat m e) = []"
| "entry_links (JStr s) = []"
| "entry_links (JArr xs) = []"

definition archive_links :: "json \<Rightarrow> json list" where
  "archive_links doc =
     (case doc of
        JObj kv \<Rightarrow>
          (case map_of kv ''versions'' of
             Some (JArr vs) \<Rightarrow> concat (map entry_links vs)
           | _ \<Rightarrow> [])
      | _ \<Rightarrow> [])"

text \<open>
  An entry the loop rewrites: \<^verbatim>\<open>v.get('version')\<close> is there and is not falsy.
\<close>

definition has_version :: "(string \<times> json) list \<Rightarrow> bool" where
  "has_version en = (case map_of en ''version'' of None \<Rightarrow> False | Some ver \<Rightarrow> truthy ver)"

subsection \<open>Populating the cache\<close>

text \<open>
  The loop \<^verbatim>\<open>for chunk in r.iter_content(...): if chunk: fh.write(chunk); fh.flush()\<close>,
  from chunk number \<^verbatim>\<open>k\<close> on, with the content written so far. It ends normally with
  the stream consumed, or with an exception, the file holding what was written before it
  and the stream left where the exception found it.
\<close>

datatype copied = Copied bytes | Raised exn bytes stream

fun copy_chunks :: "(nat \<Rightarrow> bool) \<Rightarrow> nat \<Rightarrow> bytes list \<Rightarrow> bool \<Rightarrow> bytes \<Rightarrow> copied" where
  "copy_chunks wfail k [] brk acc =
     (if brk then Raised StreamError acc (Stream [] True False) else Copied acc)"
| "copy_chunks wfail k (c # cs) brk acc =
     (if c = [] then copy_chunks wfail (Suc k) cs brk acc
      else if wfail k then Raised WriteError acc (Stream cs brk False)
      else copy_chunks wfail (Suc k) cs brk (acc @ c))"

text \<open>
  The \<^verbatim>\<open>try\<close> block that \<^verbatim>\<open>package_archive\<close> and \<^verbatim>\<open>admin_prefetch\<close> both contain:
  open the temporary file, copy the body into it, and \<^verbatim>\<open>os.replace\<close> it onto the
  final name. The result is the listing of the version directory when the block is left,
  and how it was left.
\<close>

datatype stored = Stored | Failed exn stream

definition try_store :: "faults \<Rightarrow> listing \<Rightarrow> string \<Rightarrow> string \<Rightarrow> up_reply \<Rightarrow> listing \<times> stored" where
  "try_store d l tmpname filename r =
     (if open_fails d then (l, Failed OpenError (fresh_stream r))
      else (case copy_chunks (write_fails d) 0 (body_chunks r) (body_broken r) [] of
              Raised ex acc s \<Rightarrow> (write_file l tmpname acc, Failed ex s)
            | Copied acc \<Rightarrow>
                (if replace_fails d
                 then (write_file l tmpname acc, Failed ReplaceError (Stream [] False True))
                 else (os_replace (write_file l tmpname acc) tmpname filename, Stored))))"

text \<open>
  The clean-up of both \<^verbatim>\<open>except\<close> blocks:
  \<^verbatim>\<open>if os.path.exists(tmpname): try: os.remove(tmpname) except Exception: pass\<close>.
\<close>

definition remove_partial :: "faults \<Rightarrow> listing \<Rightarrow> string \<Rightarrow> listing" where
  "remove_partial d l tmpname =
     (if file_exists l tmpname then (if remove_fails d then l else os_remove l tmpname) else l)"

text \<open>
  Both handlers, from \<^verbatim>\<open>os.makedirs\<close> to the end of the \<^verbatim>\<open>except\<close> clean-up: the
  cache after it and how the \<^verbatim>\<open>try\<close> block was left. \<^verbatim>\<open>os.makedirs\<close> stands before
  the \<^verbatim>\<open>try\<close>, so its exception is not caught (\<^verbatim>\<open>None\<close>).
\<close>

definition populate :: "faults \<Rightarrow> cache \<Rightarrow> string \<Rightarrow> string \<Rightarrow> up_reply \<Rightarrow> (cache \<times> stored) option" where
  "populate d c name version r =
     (if makedirs_fails d then None
      else (let c1 = makedirs c name version;
                filename = tar_name name version;
                tmpname = part_name name version
            in (case try_store d (listdir c1 name version) tmpname filename r of
                  (l1, Stored) \<Rightarrow> Some (put_listing c1 name version l1, Stored)
                | (l1, Failed ex s) \<Rightarrow>
                    Some (put_listing c1 name version (remove_partial d l1 tmpname),
                          Failed ex s))))"

subsection \<open>The archive endpoint\<close>

text \<open>
  \<^verbatim>\<open>send_file(filename, as_attachment=True)\<close> of the file just cached: its path and
  the content it has in the cache (an empty body if the file is not there).
\<close>

definition send_cached :: "env \<Rightarrow> cache \<Rightarrow> string \<Rightarrow> string \<Rightarrow> response" where
  "send_cached e c name version =
     Send_file (os_path_join (version_dir (cache_dir e) name version) (tar_name name version))
       (case map_of (listdir c name version) (tar_name name version) of
          None \<Rightarrow> []
        | Some b \<Rightarrow> b)"

text \<open>
  The relay of the \<^verbatim>\<open>except\<close> block:
  \<^verbatim>\<open>Response(stream_with_context(r.iter_content(chunk_size=8192)),
  content_type=r.headers.get('content-type', 'application/octet-stream'))\<close>.
\<close>

definition relay :: "up_reply \<Rightarrow> stream \<Rightarrow> response" where
  "relay r s =
     (case iter_content s of
        None \<Rightarrow> Internal_error
      | Some s' \<Rightarrow>
          Response (Streaming s') 200
            [(''Content-Type'', headers_get (headers r) ''content-type'' ''application/octet-stream'')])"

text \<open>
  \<^verbatim>\<open>upstream_path = f"/packages/{name}/versions/{version}.tar.gz"\<close>, in
  \<^verbatim>\<open>package_archive\<close> and in \<^verbatim>\<open>admin_prefetch\<close>.
\<close>

definition upstream_path :: "string \<Rightarrow> string \<Rightarrow> string" where
  "upstream_path name version = ''/packages/'' @ name @ ''/versions/'' @ version @ ''.tar.gz''"

text \<open>The part of \<^verbatim>\<open>package_archive\<close> after the cache lookup has found nothing.\<close>

definition archive_miss :: "env \<Rightarrow> world \<Rightarrow> string \<Rightarrow> string \<Rightarrow> response \<times> world" where
  "archive_miss e w name version =
     (case fetch_upstream e w (upstream_path name version) True None None ''get'' None of
        (None, w1) \<Rightarrow> (Abort 502, w1)
      | (Some r, w1) \<Rightarrow>
          (if status_code r \<noteq> 200 then (pass_through r, w1)
           else (case populate (disk e) (fs w1) name version r of
                   None \<Rightarrow> (Internal_error, w1)
                 | Some (c2, Stored) \<Rightarrow> (send_cached e c2 name version, w1\<lparr>fs := c2\<rparr>)
                 | Some (c2, Failed ex s) \<Rightarrow> (relay r s, w1\<lparr>fs := c2\<rparr>))))"

text \<open>
  \<^verbatim>\<open>package_archive\<close>: \<^verbatim>\<open>tar = cached_tar_path(...)\<close>; \<^verbatim>\<open>if tar\<close> serves the file at
  that path, with the content the lookup found there.
\<close>

definition package_archive :: "env \<Rightarrow> world \<Rightarrow> string \<Rightarrow> string \<Rightarrow> response \<times> world" where
  "package_archive e w name version =
     (case cached_tar_path (fs w) (cache_dir e) name version of
        Some tar \<Rightarrow>
          (if tar \<noteq> []
           then (Send_file tar (case cached_tar (fs w) name version of
                                  None \<Rightarrow> []
                                | Some (f, b) \<Rightarrow> b), w)
           else archive_miss e w name version)
      | None \<Rightarrow> archive_miss e w name version)"

subsection \<open>The admin endpoints\<close>




definition admin_prefetch :: "env \<Rightarrow> world \<Rightarrow> string \<Rightarrow> string \<Rightarrow> response \<times> world" where
  "admin_prefetch e w name version =
     (case fetch_upstream e w (upstream_path name version) True None None ''get'' None of
        (None, w1) \<Rightarrow> (Abort 502, w1)
      | (Some r, w1) \<Rightarrow>
          (if status_code r \<noteq> 200 then (pass_through r, w1)
           else (case populate (disk e) (fs w1) name version r of
                   None \<Rightarrow> (Internal_error, w1)
                 | Some (c2, Stored) \<Rightarrow>
                     (Jsonify (JObj [(''status'', JStr ''cached''), (''package'', JStr name),
                                     (''version'', JStr version),
                                     (''path'', JStr (os_path_join
                                        (version_dir (cache_dir e) name version)
                                        (tar_name name version)))]) 200,
                      w1\<lparr>fs := c2\<rparr>)
                 | Some (c2, Failed ex s) \<Rightarrow>
                     (Jsonify (JObj [(''status'', JStr ''error''),
                                     (''error'', JStr (str_exn e ex))]) 500,
                      w1\<lparr>fs := c2\<rparr>))))"

subsection \<open>The generic fallback\<close>

text \<open>
  The inbound request as the handler reads it: \<^verbatim>\<open>request.method\<close>,
  \<^verbatim>\<open>request.headers.items()\<close>, \<^verbatim>\<open>request.args\<close> and \<^verbatim>\<open>request.get_data()\<close>.
\<close>

record inbound =
  in_method :: string
  in_headers :: "(string \<times> string) list"
  in_args :: "(string \<times> string) list"
  in_data :: bytes

text \<open>A dictionary comprehension: a later item with the same key replaces the value.\<close>

definition dict_of :: "(string \<times> string) list \<Rightarrow> (string \<times> string) list" where
  "dict_of ps = foldl (\<lambda>d (k, v). AList.update k v d) [] ps"

definition excluded :: "string list" where
  "excluded = [''content-encoding'', ''transfer-encoding'', ''connection'']"

definition proxy_fallback :: "env \<Rightarrow> world \<Rightarrow> string \<Rightarrow> inbound \<Rightarrow> response \<times> world" where
  "proxy_fallback e w path rq =
     (case requests_request e w
             \<lparr>rq_method = in_method rq,
              rq_url = rstrip_slash (real_pub e) @ ''/'' @ path,
              rq_params = Some (in_args rq),
              rq_headers = Some (dict_of (filter (\<lambda>(k, v). lower k \<noteq> ''host'') (in_headers rq))),
              rq_data = Some (in_data rq),
              rq_stream = True,
              rq_timeout = 30\<rparr> of
        (None, w1) \<Rightarrow> (Abort 502, w1)
      | (Some resp, w1) \<Rightarrow>
          (case iter_content (fresh_stream resp) of
             None \<Rightarrow> (Internal_error, w1)
           | Some s \<Rightarrow>
               (Response (Streaming s) (status_code resp)
                  (filter (\<lambda>(n, v). lower n \<notin> set excluded) (headers resp)),
                w1)))"

subsection \<open>Runs of the populate path and example environments\<close>

text \<open>
  A run of the populate path in which nothing raises: no disk call fails, the body does not
  break, and no chunk that is written (the non-empty ones) meets a failing write.
\<close>

definition undisturbed :: "faults \<Rightarrow> up_reply \<Rightarrow> bool" where
  "undisturbed d r =
     (\<not> makedirs_fails d \<and> \<not> open_fails d \<and> \<not> body_broken r \<and> \<not> replace_fails d \<and>
      (\<forall>i<length (body_chunks r). body_chunks r ! i \<noteq> [] \<longrightarrow> \<not> write_fails d i))"

text \<open>
  Concrete environments for the example runs below: a disk without faults, an upstream
  that answers every request with the same reply, and a proxy reachable at
  \<^verbatim>\<open>http://proxy\<close>.
\<close>

definition no_faults :: faults where
  "no_faults = \<lparr>makedirs_fails = False, open_fails = False, write_fails = (\<lambda>k. False),
                 replace_fails = False, remove_fails = False\<rparr>"

definition ok_reply :: "bytes list \<Rightarrow> up_reply" where
  "ok_reply cs = \<lparr>status_code = 200, headers = [(''Content-Type'', ''application/gzip'')],
                   body_chunks = cs, body_broken = False\<rparr>"

definition example_url_for :: "string \<Rightarrow> json \<Rightarrow> string" where
  "example_url_for name ver =
     ''http://proxy/packages/'' @ name @ ''/versions/'' @
       (case ver of JStr s \<Rightarrow> s | _ \<Rightarrow> ''?'') @ ''.tar.gz''"

definition example_env ::
  "(up_request \<Rightarrow> up_reply option) \<Rightarrow> faults \<Rightarrow> (bytes \<Rightarrow> json option) \<Rightarrow> env" where
  "example_env up d dec =
     \<lparr>cache_dir = ''/srv/pub'', real_pub = ''https://pub.dev'', upstream = up, disk = d,
      url_for = example_url_for, loads = dec, str_exn = (\<lambda>ex. ''error'')\<rparr>"

definition offline :: env where
  "offline = example_env (\<lambda>rq. None) no_faults (\<lambda>b. None)"

definition empty_world :: world where
  "empty_world = \<lparr>fs = Map.empty, sent = []\<rparr>"

definition cached_world :: "bytes \<Rightarrow> world" where
  "cached_world b = \<lparr>fs = [''foo'' \<mapsto> [''1.0.0'' \<mapsto> [(''foo-1.0.0.tar.gz'', b)]]], sent = []\<rparr>"

definition serving :: "bytes list \<Rightarrow> faults \<Rightarrow> env" where
  "serving cs d = example_env (\<lambda>rq. Some (ok_reply cs)) d (\<lambda>b. None)"

text \<open>A package document with two versions, as the decoder returns it.\<close>

definition foo_versions :: "(string \<times> json) list list" where
  "foo_versions =
     [[(''version'', JStr ''1.0.0''),
       (''archive_url'', JStr ''https://pub.dev/packages/foo/versions/1.0.0.tar.gz'')],
      [(''version'', JStr ''1.1.0''),
       (''archive_url'', JStr ''https://pub.dev/packages/foo/versions/1.1.0.tar.gz''),
       (''published'', JStr ''2024-01-01'')]]"

definition foo_doc :: "(string \<times> json) list" where
  "foo_doc = [(''name'', JStr ''foo''), (''versions'', JArr (map JObj foo_versions)),
              (''isDiscontinued'', JBool False)]"

section \<open>Properties\<close>

subsection \<open>Purge\<close>








subsection \<open>Populating the cache\<close>

lemma endswith_last: "endswith s suf \<Longrightarrow> suf \<noteq> [] \<Longrightarrow> last s = last suf"
  unfolding endswith_def
  by (metis last_drop not_less drop_eq_Nil)

lemma endswith_append: "endswith (s @ suf) suf"
  by (simp add: endswith_def)

lemma part_not_tar: "\<not> endswith (part_name name version) ''.tar.gz''"
proof
  assume "endswith (part_name name version) ''.tar.gz''"
  then have "last (part_name name version) = last ''.tar.gz''"
    by (rule endswith_last) simp
  then show False by (simp add: part_name_def)
qed

lemma tar_is_tar: "endswith (tar_name name version) ''.tar.gz''"
  using endswith_append [of "name @ ''-'' @ version" "''.tar.gz''"] by (simp add: tar_name_def)

lemma part_neq_tar: "part_name name version \<noteq> tar_name name version"
  using part_not_tar tar_is_tar by metis

lemma copy_chunks_Copied:
  "copy_chunks wfail k cs brk acc = Copied x \<longleftrightarrow>
     \<not> brk \<and> (\<forall>i<length cs. cs ! i \<noteq> [] \<longrightarrow> \<not> wfail (k + i)) \<and> x = acc @ concat cs"
proof (induction cs arbitrary: k acc)
  case Nil
  then show ?case by auto
next
  case (Cons c cs)
  show ?case
    by (auto simp: Cons.IH All_less_Suc2 less_Suc_eq_0_disj)
qed

lemma listdir_makedirs: "listdir (makedirs c n v) n' v' = listdir c n' v'"
  by (auto simp: listdir_def makedirs_def split: option.splits)

lemma isdir_makedirs: "isdir_ver (makedirs c n v) n v"
  by (auto simp: isdir_ver_def makedirs_def split: option.splits)

lemma listdir_put_same: "isdir_ver c n v \<Longrightarrow> listdir (put_listing c n v l) n v = l"
  by (auto simp: listdir_def put_listing_def isdir_ver_def split: option.splits)

lemma listdir_put_other: "(n', v') \<noteq> (n, v) \<Longrightarrow> listdir (put_listing c n v l) n' v' = listdir c n' v'"
  by (auto simp: listdir_def put_listing_def split: option.splits)

lemma cached_tar_find:
  "cached_tar c n v = find (\<lambda>(f, b). endswith f ''.tar.gz'') (listdir c n v)"
  by (auto simp: cached_tar_def listdir_def isdir_ver_def split: option.splits)

lemma find_update_other:
  "\<not> Q k \<Longrightarrow> find (\<lambda>(f, b). Q f) (AList.update k x l) = find (\<lambda>(f, b). Q f) l"
  by (induction l) auto

lemma find_delete_other:
  "\<not> Q k \<Longrightarrow> find (\<lambda>(f, b). Q f) (AList.delete k l) = find (\<lambda>(f, b). Q f) l"
  by (induction l) auto

lemma filter_update_other:
  "\<not> Q k \<Longrightarrow> filter (\<lambda>(f, b). Q f) (AList.update k x l) = filter (\<lambda>(f, b). Q f) l"
  by (induction l) auto

lemma filter_delete_other:
  "\<not> Q k \<Longrightarrow> filter (\<lambda>(f, b). Q f) (AList.delete k l) = filter (\<lambda>(f, b). Q f) l"
  by (induction l) auto

lemma try_store_Stored:
  "try_store d l tmp fin r = (l1, Stored) \<longleftrightarrow>
     \<not> open_fails d \<and> \<not> body_broken r \<and> \<not> replace_fails d \<and>
     (\<forall>i<length (body_chunks r). body_chunks r ! i \<noteq> [] \<longrightarrow> \<not> write_fails d i) \<and>
     l1 = os_replace (write_file l tmp (concat (body_chunks r))) tmp fin"
proof (cases "copy_chunks (write_fails d) 0 (body_chunks r) (body_broken r) []")
  case (Copied x)
  then show ?thesis
    using copy_chunks_Copied [of "write_fails d" 0 "body_chunks r" "body_broken r" "[]" x]
    by (auto simp: try_store_def)
next
  case (Raised ex acc s)
  then show ?thesis
    using copy_chunks_Copied [of "write_fails d" 0 "body_chunks r" "body_broken r" "[]"]
    by (auto simp: try_store_def)
qed


lemma try_store_clean:
  assumes "\<not> open_fails d" "\<not> body_broken r" "\<not> replace_fails d"
    and "\<forall>i<length (body_chunks r). body_chunks r ! i \<noteq> [] \<longrightarrow> \<not> write_fails d i"
  shows "try_store d l tmp fin r =
           (os_replace (write_file l tmp (concat (body_chunks r))) tmp fin, Stored)"
  using assms try_store_Stored [of d l tmp fin r] by blast


lemma populate_undisturbed:
  assumes "undisturbed d r"
  shows "populate d c n v r =
     Some (put_listing (makedirs c n v) n v
            (os_replace (write_file (listdir c n v) (part_name n v) (concat (body_chunks r)))
               (part_name n v) (tar_name n v)), Stored)"
proof -
  from assms have "try_store d (listdir c n v) (part_name n v) (tar_name n v) r =
      (os_replace (write_file (listdir c n v) (part_name n v) (concat (body_chunks r)))
         (part_name n v) (tar_name n v), Stored)"
    by (intro try_store_clean) (simp_all add: undisturbed_def)
  with assms show ?thesis
    by (simp add: populate_def Let_def undisturbed_def listdir_makedirs)
qed



lemma map_of_write_file: "map_of (write_file l f x) = (map_of l)(f \<mapsto> x)"
  by (simp add: write_file_def update_conv')

lemma stored_listing:
  assumes "tmp \<noteq> fin"
  shows "map_of (os_replace (write_file l tmp x) tmp fin) fin = Some x"
    and "map_of (os_replace (write_file l tmp x) tmp fin) tmp = None"
    and "filter (\<lambda>(f, b). f \<noteq> fin \<and> f \<noteq> tmp) (os_replace (write_file l tmp x) tmp fin) =
         filter (\<lambda>(f, b). f \<noteq> fin \<and> f \<noteq> tmp) l"
  using assms
  by (simp_all add: os_replace_def map_of_write_file update_conv' delete_conv'
      filter_update_other [where Q = "\<lambda>f. f \<noteq> fin \<and> f \<noteq> tmp"]
      filter_delete_other [where Q = "\<lambda>f. f \<noteq> fin \<and> f \<noteq> tmp"] write_file_def)


lemma fs_fetch_upstream: "fs (snd (fetch_upstream e w path st ps hs m dt)) = fs w"
  by (simp add: fetch_upstream_def requests_request_def)

lemma handler_cache:
  assumes "fst (fetch_upstream e w (upstream_path name version) True None None ''get'' None) = Some r"
    and "status_code r = 200"
    and "h = archive_miss \<or> h = admin_prefetch"
  shows "fs (snd (h e w name version)) =
           (case populate (disk e) (fs w) name version r of
              None \<Rightarrow> fs w
            | Some (c2, out) \<Rightarrow> c2)"
proof -
  obtain ro w1 where f: "fetch_upstream e w (upstream_path name version) True None None ''get'' None = (ro, w1)"
    by (cases "fetch_upstream e w (upstream_path name version) True None None ''get'' None")
  with assms(1) have ro: "ro = Some r" by simp
  from f have w1: "fs w1 = fs w"
    using fs_fetch_upstream [of e w "upstream_path name version" True None None "''get''" None] by simp
  from assms(3) show ?thesis
    by (auto simp: archive_miss_def admin_prefetch_def f ro w1 assms(2)
        split: option.splits prod.splits stored.splits)
qed


lemma listdir_populated:
  "listdir (put_listing (makedirs c n v) n v L) n v = L"
  "(n', v') \<noteq> (n, v) \<Longrightarrow> listdir (put_listing (makedirs c n v) n v L) n' v' = listdir c n' v'"
  by (simp_all add: listdir_put_same isdir_makedirs listdir_put_other listdir_makedirs)

lemmas run_defs = package_archive_def archive_miss_def admin_prefetch_def cached_tar_def
  cached_tar_path_def
  isdir_ver_def listdir_def fetch_upstream_def requests_request_def upstream_path_def
  populate_def try_store_def remove_partial_def makedirs_def put_listing_def
  write_file_def os_replace_def os_remove_def file_exists_def tar_name_def part_name_def
  relay_def iter_content_def fresh_stream_def headers_get_def send_cached_def
  pass_through_def content_def
  serving_def example_env_def ok_reply_def no_faults_def empty_world_def cached_world_def
  version_dir_def os_path_join_def rstrip_slash_def lower_def lower_char_def

lemma fetch_serving:
  "fst (fetch_upstream (serving cs d) w path True None None ''get'' None) = Some (ok_reply cs)"
  by (simp add: fetch_upstream_def requests_request_def serving_def example_env_def ok_reply_def)

lemma status_ok_reply: "status_code (ok_reply cs) = 200"
  by (simp add: ok_reply_def)

lemma undisturbed_no_faults: "undisturbed (disk (serving cs no_faults)) (ok_reply cs)"
  by (simp add: undisturbed_def serving_def example_env_def ok_reply_def no_faults_def)





text \<open>
  C2: the upstream answers 200 with the chunks \<^verbatim>\<open>AB\<close>, \<^verbatim>\<open>CD\<close>, \<^verbatim>\<open>EF\<close> and the write of
  the second chunk fails. The relay takes the body from the same response, whose first two
  chunks the copy loop has already read, so the client receives \<^verbatim>\<open>EF\<close> with status 200
  and not the six bytes of the archive.
\<close>

theorem relay_after_failed_write:
  "fst (package_archive (serving [''AB'', ''CD'', ''EF''] (no_faults\<lparr>write_fails := (\<lambda>k. k = 1)\<rparr>))
          empty_world ''foo'' ''1.0.0'') =
     Response (Streaming (Stream [''EF''] False False)) 200 [(''Content-Type'', ''application/gzip'')] \<and>
   client_bytes (fst (package_archive
          (serving [''AB'', ''CD'', ''EF''] (no_faults\<lparr>write_fails := (\<lambda>k. k = 1)\<rparr>))
          empty_world ''foo'' ''1.0.0'')) = ''EF'' \<and>
   concat (body_chunks (ok_reply [''AB'', ''CD'', ''EF''])) = ''ABCDEF''"
  by (simp add: run_defs)

subsection \<open>The archive endpoint after a miss, and prefetch\<close>

lemma find_update_new:
  "find (\<lambda>(f, b). Q f) l = None \<Longrightarrow> Q k \<Longrightarrow>
   find (\<lambda>(f, b). Q f) (AList.update k x l) = Some (k, x)"
  by (induction l) (auto split: if_splits)

lemma find_update_first:
  assumes "find (\<lambda>(f, b). Q f) l = Some (k, y)"
  shows "find (\<lambda>(f, b). Q f) (AList.update k x l) = Some (k, x)"
proof -
  from assms have "Q k" by (auto simp: find_Some_iff)
  with assms show ?thesis
    by (induction l) (auto split: if_splits)
qed

lemma stored_lookup:
  assumes "find (\<lambda>(f, b). Q f) l = None \<or> (\<exists>y. find (\<lambda>(f, b). Q f) l = Some (fin, y))"
    and "Q fin" "\<not> Q tmp" "tmp \<noteq> fin"
  shows "find (\<lambda>(f, b). Q f) (os_replace (write_file l tmp x) tmp fin) = Some (fin, x)"
proof -
  have "os_replace (write_file l tmp x) tmp fin =
          AList.update fin x (AList.delete tmp (AList.update tmp x l))"
    by (simp add: os_replace_def write_file_def update_conv')
  moreover have "find (\<lambda>(f, b). Q f) (AList.delete tmp (AList.update tmp x l)) = find (\<lambda>(f, b). Q f) l"
    using assms(3) by (simp add: find_delete_other find_update_other)
  ultimately show ?thesis
    using assms(1,2) by (auto simp: find_update_new find_update_first)
qed

lemma handler_stored:
  assumes "fst (fetch_upstream e w (upstream_path name version) True None None ''get'' None) = Some r"
    and "status_code r = 200"
    and "undisturbed (disk e) r"
  shows "fst (archive_miss e w name version) =
           Send_file (os_path_join (version_dir (cache_dir e) name version) (tar_name name version))
             (concat (body_chunks r))"
    and "fst (admin_prefetch e w name version) =
           Jsonify (JObj [(''status'', JStr ''cached''), (''package'', JStr name),
                          (''version'', JStr version),
                          (''path'', JStr (os_path_join (version_dir (cache_dir e) name version)
                                             (tar_name name version)))]) 200"
proof -
  obtain ro w1 where f: "fetch_upstream e w (upstream_path name version) True None None ''get'' None = (ro, w1)"
    by (cases "fetch_upstream e w (upstream_path name version) True None None ''get'' None")
  with assms(1) have ro: "ro = Some r" by simp
  from f have w1: "fs w1 = fs w"
    using fs_fetch_upstream [of e w "upstream_path name version" True None None "''get''" None] by simp
  show "fst (archive_miss e w name version) =
           Send_file (os_path_join (version_dir (cache_dir e) name version) (tar_name name version))
             (concat (body_chunks r))"
    by (simp add: archive_miss_def f ro w1 assms(2) populate_undisturbed [OF assms(3)]
        send_cached_def listdir_populated stored_listing [OF part_neq_tar])
  show "fst (admin_prefetch e w name version) =
           Jsonify (JObj [(''status'', JStr ''cached''), (''package'', JStr name),
                          (''version'', JStr version),
                          (''path'', JStr (os_path_join (version_dir (cache_dir e) name version)
                                             (tar_name name version)))]) 200"
    by (simp add: admin_prefetch_def f ro w1 assms(2) populate_undisturbed [OF assms(3)])
qed

lemma handler_stored_lookup:
  assumes fetch: "fst (fetch_upstream e w (upstream_path name version) True None None ''get'' None) = Some r"
    and ok: "status_code r = 200"
    and u: "undisturbed (disk e) r"
    and h: "h = archive_miss \<or> h = admin_prefetch"
    and before: "cached_tar (fs w) name version = None \<or>
                 (\<exists>b. cached_tar (fs w) name version = Some (tar_name name version, b))"
  shows "cached_tar (fs (snd (h e w name version))) name version =
           Some (tar_name name version, concat (body_chunks r))"
proof -
  have "fs (snd (h e w name version)) = put_listing (makedirs (fs w) name version) name version
        (os_replace (write_file (listdir (fs w) name version) (part_name name version)
           (concat (body_chunks r))) (part_name name version) (tar_name name version))"
    using handler_cache [OF fetch ok h] by (simp add: populate_undisturbed [OF u])
  then show ?thesis
    using before
    by (simp add: cached_tar_find listdir_populated
        stored_lookup [where Q = "\<lambda>f. endswith f ''.tar.gz''"] tar_is_tar part_not_tar part_neq_tar)
qed

lemma handler_not_ok:
  assumes "fst (fetch_upstream e w (upstream_path name version) True None None ''get'' None) = Some r"
    and "status_code r \<noteq> 200"
    and "h = archive_miss \<or> h = admin_prefetch"
  shows "fs (snd (h e w name version)) = fs w"
    and "fst (h e w name version) = pass_through r"
proof -
  obtain ro w1 where f: "fetch_upstream e w (upstream_path name version) True None None ''get'' None = (ro, w1)"
    by (cases "fetch_upstream e w (upstream_path name version) True None None ''get'' None")
  with assms(1) have ro: "ro = Some r" by simp
  from f have w1: "fs w1 = fs w"
    using fs_fetch_upstream [of e w "upstream_path name version" True None None "''get''" None] by simp
  from assms(3) show "fs (snd (h e w name version)) = fs w"
    by (auto simp: archive_miss_def admin_prefetch_def f ro w1 assms(2))
  from assms(3) show "fst (h e w name version) = pass_through r"
    by (auto simp: archive_miss_def admin_prefetch_def f ro w1 assms(2))
qed

lemma package_archive_miss:
  "cached_tar (fs w) name version = None \<Longrightarrow> package_archive e w name version = archive_miss e w name version"
  by (simp add: package_archive_def cached_tar_path_def)

lemma fetch_constant:
  "fst (fetch_upstream (example_env (\<lambda>rq. Some r) d dec) w path True ps hs m dt) = Some r"
  by (simp add: fetch_upstream_def requests_request_def example_env_def)

lemma sent_admin_prefetch:
  "sent (snd (admin_prefetch e w name version)) =
     sent w @ [\<lparr>rq_method = ''get'', rq_url = rstrip_slash (real_pub e) @ upstream_path name version,
                rq_params = None, rq_headers = None, rq_data = None, rq_stream = True,
                rq_timeout = 30\<rparr>]"
  by (simp add: admin_prefetch_def fetch_upstream_def requests_request_def
      split: option.splits prod.splits stored.splits)

text \<open>
  The pass-through of a reply that is not 200 hands on every header of the reply, the
  connection-management ones too (the generic fallback filters them, this path does not).
\<close>

lemma pass_through_keeps_connection_header:
  "fst (package_archive
     (example_env (\<lambda>rq. Some \<lparr>status_code = 404, headers = [(''Connection'', ''keep-alive'')],
                                body_chunks = [''gone''], body_broken = False\<rparr>) no_faults (\<lambda>b. None))
     empty_world ''foo'' ''1.0.0'') =
   Response (Content ''gone'') 404 [(''Connection'', ''keep-alive'')]"
  by (simp add: run_defs)

text \<open>
  C3, as the claim states it, fails: the handler tests \<^verbatim>\<open>r.status_code != 200\<close>, not
  "2xx". A reply with status 203 and a body is passed through and nothing is cached.
\<close>

theorem accepted_not_cached_counterexample:
  "package_archive
     (example_env (\<lambda>rq. Some ((ok_reply [''DATA''])\<lparr>status_code := 203\<rparr>)) no_faults (\<lambda>b. None))
     empty_world ''foo'' ''1.0.0'' =
     (Response (Content ''DATA'') 203 [(''Content-Type'', ''application/gzip'')],
      \<lparr>fs = Map.empty,
       sent = [\<lparr>rq_method = ''get'', rq_url = ''https://pub.dev/packages/foo/versions/1.0.0.tar.gz'',
               rq_params = None, rq_headers = None, rq_data = None, rq_stream = True,
               rq_timeout = 30\<rparr>]\<rparr>)"
  by (simp add: run_defs)

text \<open>
  C3, amended to the test the code makes. After a miss, a reply whose status is not 200 is
  passed through with its status and its body (when the body can be read), and the cache is
  left as it was; a reply with status 200 whose population meets no fault is stored, the
  response is the file just cached, sent as an attachment with the whole body, and the
  lookup finds it from then on. (What the pass-through does with the headers is left out.)
\<close>

theorem archive_miss_outcomes:
  assumes miss: "cached_tar (fs w) name version = None"
    and fetch: "fst (fetch_upstream e w (upstream_path name version) True None None ''get'' None) = Some r"
  shows
    "(status_code r \<noteq> 200 \<longrightarrow>
        fs (snd (package_archive e w name version)) = fs w \<and>
        (\<not> body_broken r \<longrightarrow>
           status_of (fst (package_archive e w name version)) = status_code r \<and>
           client_bytes (fst (package_archive e w name version)) = concat (body_chunks r))) \<and>
     (status_code r = 200 \<and> undisturbed (disk e) r \<longrightarrow>
        fst (package_archive e w name version) =
          Send_file (os_path_join (version_dir (cache_dir e) name version) (tar_name name version))
            (concat (body_chunks r)) \<and>
        cached_tar (fs (snd (package_archive e w name version))) name version =
          Some (tar_name name version, concat (body_chunks r)))"
  using handler_not_ok [OF fetch _ disjI1 [OF refl]]
    handler_stored(1) [OF fetch]
    handler_stored_lookup [OF fetch _ _ disjI1 [OF refl] disjI1 [OF miss]]
  by (simp add: package_archive_miss [OF miss] pass_through_def content_def)

theorem archive_miss_outcomes_witness:
  "status_of (fst (package_archive
      (example_env (\<lambda>rq. Some ((ok_reply [''gone''])\<lparr>status_code := 404\<rparr>)) no_faults (\<lambda>b. None))
      empty_world ''foo'' ''1.0.0'')) = 404 \<and>
   client_bytes (fst (package_archive
      (example_env (\<lambda>rq. Some ((ok_reply [''gone''])\<lparr>status_code := 404\<rparr>)) no_faults (\<lambda>b. None))
      empty_world ''foo'' ''1.0.0'')) = ''gone'' \<and>
   fs (snd (package_archive
      (example_env (\<lambda>rq. Some ((ok_reply [''gone''])\<lparr>status_code := 404\<rparr>)) no_faults (\<lambda>b. None))
      empty_world ''foo'' ''1.0.0'')) = Map.empty \<and>
   fst (package_archive (serving [''AB'', ''CD''] no_faults) empty_world ''foo'' ''1.0.0'') =
      Send_file ''/srv/pub/foo/1.0.0/foo-1.0.0.tar.gz'' ''ABCD'' \<and>
   cached_tar (fs (snd (package_archive (serving [''AB'', ''CD''] no_faults) empty_world
      ''foo'' ''1.0.0''))) ''foo'' ''1.0.0'' = Some (''foo-1.0.0.tar.gz'', ''ABCD'')"
proof -
  have miss: "cached_tar (fs empty_world) ''foo'' ''1.0.0'' = None"
    by (simp add: cached_tar_def empty_world_def isdir_ver_def)
  have r404: "status_code ((ok_reply [''gone''])\<lparr>status_code := 404\<rparr>) \<noteq> 200"
    "\<not> body_broken ((ok_reply [''gone''])\<lparr>status_code := 404\<rparr>)"
    "status_code ((ok_reply [''gone''])\<lparr>status_code := 404\<rparr>) = 404"
    "concat (body_chunks ((ok_reply [''gone''])\<lparr>status_code := 404\<rparr>)) = ''gone''"
    by (simp_all add: ok_reply_def)
  have names: "tar_name ''foo'' ''1.0.0'' = ''foo-1.0.0.tar.gz''"
    "concat (body_chunks (ok_reply [''AB'', ''CD''])) = ''ABCD''"
    "os_path_join (version_dir (cache_dir (serving [''AB'', ''CD''] no_faults)) ''foo'' ''1.0.0'')
       ''foo-1.0.0.tar.gz'' = ''/srv/pub/foo/1.0.0/foo-1.0.0.tar.gz''"
    "fs empty_world = Map.empty"
    by (simp_all add: tar_name_def ok_reply_def serving_def example_env_def version_dir_def
        os_path_join_def empty_world_def)
  show ?thesis
    using
      archive_miss_outcomes [OF miss fetch_constant [of "(ok_reply [''gone''])\<lparr>status_code := 404\<rparr>"
          no_faults "\<lambda>b. None" empty_world "upstream_path ''foo'' ''1.0.0''"]]
      archive_miss_outcomes [OF miss fetch_serving [of "[''AB'', ''CD'']" no_faults empty_world
          "upstream_path ''foo'' ''1.0.0''"]]
      undisturbed_no_faults [of "[''AB'', ''CD'']"] status_ok_reply [of "[''AB'', ''CD'']"] r404
    by (simp add: names)
qed

text \<open>
  C6: prefetch asks the upstream whatever the cache holds (the request is logged in every
  run, there is no lookup before it), and on a reply with status 200 and a population that
  meets no fault it answers \<^verbatim>\<open>cached\<close> with the final path, the final file holds the
  new body, and the lookup returns the new body when the cache held nothing or held the
  file under its final name.
\<close>

theorem prefetch_overwrites:
  assumes fetch: "fst (fetch_upstream e w (upstream_path name version) True None None ''get'' None) = Some r"
    and ok: "status_code r = 200"
    and u: "undisturbed (disk e) r"
  shows
    "fst (admin_prefetch e w name version) =
       Jsonify (JObj [(''status'', JStr ''cached''), (''package'', JStr name),
                      (''version'', JStr version),
                      (''path'', JStr (os_path_join (version_dir (cache_dir e) name version)
                                         (tar_name name version)))]) 200 \<and>
     map_of (listdir (fs (snd (admin_prefetch e w name version))) name version)
       (tar_name name version) = Some (concat (body_chunks r)) \<and>
     ((cached_tar (fs w) name version = None \<or>
       (\<exists>b. cached_tar (fs w) name version = Some (tar_name name version, b))) \<longrightarrow>
        cached_tar (fs (snd (admin_prefetch e w name version))) name version =
          Some (tar_name name version, concat (body_chunks r))) \<and>
     sent (snd (admin_prefetch e w name version)) =
       sent w @ [\<lparr>rq_method = ''get'', rq_url = rstrip_slash (real_pub e) @ upstream_path name version,
                  rq_params = None, rq_headers = None, rq_data = None, rq_stream = True,
                  rq_timeout = 30\<rparr>]"
proof -
  have "fs (snd (admin_prefetch e w name version)) =
      put_listing (makedirs (fs w) name version) name version
        (os_replace (write_file (listdir (fs w) name version) (part_name name version)
           (concat (body_chunks r))) (part_name name version) (tar_name name version))"
    using handler_cache [OF fetch ok disjI2 [OF refl]] by (simp add: populate_undisturbed [OF u])
  then have "map_of (listdir (fs (snd (admin_prefetch e w name version))) name version)
       (tar_name name version) = Some (concat (body_chunks r))"
    by (simp add: listdir_populated stored_listing [OF part_neq_tar])
  then show ?thesis
    using handler_stored(2) [OF fetch ok u] handler_stored_lookup [OF fetch ok u disjI2 [OF refl]]
    by (simp add: sent_admin_prefetch)
qed

theorem prefetch_overwrites_witness:
  "admin_prefetch (serving [''NEW''] no_faults) (cached_world ''OLD'') ''foo'' ''1.0.0'' =
     (Jsonify (JObj [(''status'', JStr ''cached''), (''package'', JStr ''foo''),
                     (''version'', JStr ''1.0.0''),
                     (''path'', JStr ''/srv/pub/foo/1.0.0/foo-1.0.0.tar.gz'')]) 200,
      \<lparr>fs = [''foo'' \<mapsto> [''1.0.0'' \<mapsto> [(''foo-1.0.0.tar.gz'', ''NEW'')]]],
       sent = [\<lparr>rq_method = ''get'', rq_url = ''https://pub.dev/packages/foo/versions/1.0.0.tar.gz'',
               rq_params = None, rq_headers = None, rq_data = None, rq_stream = True,
               rq_timeout = 30\<rparr>]\<rparr>) \<and>
   cached_tar (fs (cached_world ''OLD'')) ''foo'' ''1.0.0'' = Some (''foo-1.0.0.tar.gz'', ''OLD'') \<and>
   cached_tar (fs (snd (admin_prefetch (serving [''NEW''] no_faults) (cached_world ''OLD'')
      ''foo'' ''1.0.0''))) ''foo'' ''1.0.0'' = Some (''foo-1.0.0.tar.gz'', ''NEW'')"
proof -
  have before: "cached_tar (fs (cached_world ''OLD'')) ''foo'' ''1.0.0'' = Some (''foo-1.0.0.tar.gz'', ''OLD'')"
    by (simp add: cached_tar_def cached_world_def isdir_ver_def listdir_def endswith_def)
  have names: "tar_name ''foo'' ''1.0.0'' = ''foo-1.0.0.tar.gz''"
    "concat (body_chunks (ok_reply [''NEW''])) = ''NEW''"
    by (simp_all add: tar_name_def ok_reply_def)
  have run: "admin_prefetch (serving [''NEW''] no_faults) (cached_world ''OLD'') ''foo'' ''1.0.0'' =
     (Jsonify (JObj [(''status'', JStr ''cached''), (''package'', JStr ''foo''),
                     (''version'', JStr ''1.0.0''),
                     (''path'', JStr ''/srv/pub/foo/1.0.0/foo-1.0.0.tar.gz'')]) 200,
      \<lparr>fs = [''foo'' \<mapsto> [''1.0.0'' \<mapsto> [(''foo-1.0.0.tar.gz'', ''NEW'')]]],
       sent = [\<lparr>rq_method = ''get'', rq_url = ''https://pub.dev/packages/foo/versions/1.0.0.tar.gz'',
               rq_params = None, rq_headers = None, rq_data = None, rq_stream = True,
               rq_timeout = 30\<rparr>]\<rparr>)"
    by (simp add: run_defs)
  show ?thesis
    using prefetch_overwrites [OF fetch_serving [of "[''NEW'']" no_faults "cached_world ''OLD''"
          "upstream_path ''foo'' ''1.0.0''"] status_ok_reply undisturbed_no_faults]
      before run
    by (simp add: names)
qed

subsection \<open>The relay after a failed population\<close>

lemma copy_chunks_Raised:
  "copy_chunks wfail k cs brk acc = Raised ex a s \<Longrightarrow> \<not> content_consumed s"
  by (induction cs arbitrary: k acc) (auto split: if_splits)

lemma try_store_relayable:
  assumes "open_fails d \<or> body_broken r \<or>
           (\<exists>i<length (body_chunks r). body_chunks r ! i \<noteq> [] \<and> write_fails d i)"
  shows "\<exists>l1 ex s. try_store d l tmp fin r = (l1, Failed ex s) \<and> \<not> content_consumed s"
proof (cases "open_fails d")
  case True
  then show ?thesis by (simp add: try_store_def fresh_stream_def)
next
  case False
  with assms have "\<And>x. copy_chunks (write_fails d) 0 (body_chunks r) (body_broken r) [] \<noteq> Copied x"
    by (auto simp: copy_chunks_Copied)
  then obtain ex a s where
    c: "copy_chunks (write_fails d) 0 (body_chunks r) (body_broken r) [] = Raised ex a s"
    by (cases "copy_chunks (write_fails d) 0 (body_chunks r) (body_broken r) []") auto
  then have "\<not> content_consumed s" by (rule copy_chunks_Raised)
  with c False show ?thesis by (simp add: try_store_def)
qed

text \<open>
  C9: whenever the archive handler, after a miss and a reply with status 200, answers with
  a relayed stream, the response has status 200 and exactly one header, the content type
  of the upstream reply or \<^verbatim>\<open>application/octet-stream\<close>; it is a plain
  \<^verbatim>\<open>Response\<close>, not the \<^verbatim>\<open>send_file\<close> attachment of the cached paths, and no other
  upstream header is in it. The relay is what happens when opening the temporary file, a
  write, or the stream fails (a failed rename leaves the response consumed, and the
  request ends in a 500 instead).
\<close>

theorem relay_shape:
  assumes miss: "cached_tar (fs w) name version = None"
    and fetch: "fst (fetch_upstream e w (upstream_path name version) True None None ''get'' None) = Some r"
    and ok: "status_code r = 200"
  shows
    "(\<not> makedirs_fails (disk e) \<and>
      (open_fails (disk e) \<or> body_broken r \<or>
       (\<exists>i<length (body_chunks r). body_chunks r ! i \<noteq> [] \<and> write_fails (disk e) i)) \<longrightarrow>
        (\<exists>s. fst (package_archive e w name version) =
               Response (Streaming s) 200
                 [(''Content-Type'',
                   headers_get (headers r) ''content-type'' ''application/octet-stream'')])) \<and>
     (\<forall>s st hs. fst (package_archive e w name version) = Response (Streaming s) st hs \<longrightarrow>
        st = 200 \<and>
        hs = [(''Content-Type'',
               headers_get (headers r) ''content-type'' ''application/octet-stream'')])"
proof -
  obtain ro w1 where f: "fetch_upstream e w (upstream_path name version) True None None ''get'' None = (ro, w1)"
    by (cases "fetch_upstream e w (upstream_path name version) True None None ''get'' None")
  with fetch have ro: "ro = Some r" by simp
  have shape: "\<forall>s st hs. fst (package_archive e w name version) = Response (Streaming s) st hs \<longrightarrow>
        st = 200 \<and>
        hs = [(''Content-Type'',
               headers_get (headers r) ''content-type'' ''application/octet-stream'')]"
    by (auto simp: package_archive_miss [OF miss] archive_miss_def f ro ok relay_def send_cached_def
        split: option.splits stored.splits)
  have relayed: "\<exists>s. fst (package_archive e w name version) =
               Response (Streaming s) 200
                 [(''Content-Type'',
                   headers_get (headers r) ''content-type'' ''application/octet-stream'')]"
    if dirs: "\<not> makedirs_fails (disk e)"
      and fault: "open_fails (disk e) \<or> body_broken r \<or>
       (\<exists>i<length (body_chunks r). body_chunks r ! i \<noteq> [] \<and> write_fails (disk e) i)"
  proof -
    obtain l1 ex s where
      t: "try_store (disk e) (listdir (makedirs (fs w1) name version) name version)
            (part_name name version) (tar_name name version) r = (l1, Failed ex s)"
      and s: "\<not> content_consumed s"
      using try_store_relayable [OF fault] by blast
    then show ?thesis
      by (simp add: package_archive_miss [OF miss] archive_miss_def f ro ok populate_def dirs
          relay_def iter_content_def)
  qed
  from shape relayed show ?thesis by blast
qed

theorem relay_shape_witness:
  "(\<exists>s. fst (package_archive (serving [''AB'', ''CD''] (no_faults\<lparr>write_fails := (\<lambda>k. k = 1)\<rparr>))
      empty_world ''foo'' ''1.0.0'') =
     Response (Streaming s) 200 [(''Content-Type'', ''application/gzip'')]) \<and>
   (\<exists>s. fst (package_archive
      (example_env (\<lambda>rq. Some \<lparr>status_code = 200, headers = [], body_chunks = [''AB''],
                                 body_broken = False\<rparr>) (no_faults\<lparr>open_fails := True\<rparr>) (\<lambda>b. None))
      empty_world ''foo'' ''1.0.0'') =
     Response (Streaming s) 200 [(''Content-Type'', ''application/octet-stream'')]) \<and>
   fst (package_archive (serving [''AB'', ''CD''] (no_faults\<lparr>write_fails := (\<lambda>k. k = 1)\<rparr>))
      empty_world ''foo'' ''1.0.0'') =
     Response (Streaming (Stream [] False False)) 200 [(''Content-Type'', ''application/gzip'')] \<and>
   fst (package_archive
      (example_env (\<lambda>rq. Some \<lparr>status_code = 200, headers = [], body_chunks = [''AB''],
                                 body_broken = False\<rparr>) (no_faults\<lparr>open_fails := True\<rparr>) (\<lambda>b. None))
      empty_world ''foo'' ''1.0.0'') =
     Response (Streaming (Stream [''AB''] False False)) 200
       [(''Content-Type'', ''application/octet-stream'')]"
proof -
  let ?e1 = "serving [''AB'', ''CD''] (no_faults\<lparr>write_fails := (\<lambda>k. k = 1)\<rparr>)"
  let ?r2 = "\<lparr>status_code = 200, headers = [], body_chunks = [''AB''], body_broken = False\<rparr>"
  let ?e2 = "example_env (\<lambda>rq. Some ?r2) (no_faults\<lparr>open_fails := True\<rparr>) (\<lambda>b. None)"
  have miss: "cached_tar (fs empty_world) ''foo'' ''1.0.0'' = None"
    by (simp add: cached_tar_def empty_world_def isdir_ver_def)
  have fault1: "\<not> makedirs_fails (disk ?e1) \<and>
      (open_fails (disk ?e1) \<or> body_broken (ok_reply [''AB'', ''CD'']) \<or>
       (\<exists>i<length (body_chunks (ok_reply [''AB'', ''CD''])).
           body_chunks (ok_reply [''AB'', ''CD'']) ! i \<noteq> [] \<and> write_fails (disk ?e1) i))"
    by (auto simp: serving_def example_env_def ok_reply_def no_faults_def intro!: exI [of _ 1])
  have fault2: "\<not> makedirs_fails (disk ?e2) \<and>
      (open_fails (disk ?e2) \<or> body_broken ?r2 \<or>
       (\<exists>i<length (body_chunks ?r2). body_chunks ?r2 ! i \<noteq> [] \<and> write_fails (disk ?e2) i))"
    by (simp add: example_env_def no_faults_def)
  have hs: "headers_get (headers (ok_reply [''AB'', ''CD''])) ''content-type'' ''application/octet-stream'' =
      ''application/gzip''"
    "headers_get (headers ?r2) ''content-type'' ''application/octet-stream'' = ''application/octet-stream''"
    by (simp_all add: headers_get_def ok_reply_def lower_def lower_char_def)
  have s1: "\<exists>s. fst (package_archive ?e1 empty_world ''foo'' ''1.0.0'') =
     Response (Streaming s) 200 [(''Content-Type'', ''application/gzip'')]"
    using relay_shape [OF miss fetch_serving [of "[''AB'', ''CD'']" "no_faults\<lparr>write_fails := (\<lambda>k. k = 1)\<rparr>"
          empty_world "upstream_path ''foo'' ''1.0.0''"] status_ok_reply] fault1
    unfolding hs by blast
  have ok2: "status_code ?r2 = 200" by simp
  have s2: "\<exists>s. fst (package_archive ?e2 empty_world ''foo'' ''1.0.0'') =
     Response (Streaming s) 200 [(''Content-Type'', ''application/octet-stream'')]"
    using relay_shape [OF miss fetch_constant [of ?r2 "no_faults\<lparr>open_fails := True\<rparr>" "\<lambda>b. None"
          empty_world "upstream_path ''foo'' ''1.0.0''" None None "''get''" None] ok2] fault2
    unfolding hs by blast
  have run1: "fst (package_archive ?e1 empty_world ''foo'' ''1.0.0'') =
     Response (Streaming (Stream [] False False)) 200 [(''Content-Type'', ''application/gzip'')]"
    by (simp add: run_defs)
  have run2: "fst (package_archive ?e2 empty_world ''foo'' ''1.0.0'') =
     Response (Streaming (Stream [''AB''] False False)) 200
       [(''Content-Type'', ''application/octet-stream'')]"
    by (simp add: run_defs)
  show ?thesis
    by (rule conjI [OF s1 conjI [OF s2 conjI [OF run1 run2]]])
qed

subsection \<open>Transport failures\<close>

lemma sent_api_package:
  "sent (snd (api_package e w name)) =
     sent w @ [\<lparr>rq_method = ''get'', rq_url = rstrip_slash (real_pub e) @ ''/api/packages/'' @ name,
                rq_params = None, rq_headers = None, rq_data = None, rq_stream = False,
                rq_timeout = 30\<rparr>]"
  by (simp add: api_package_def fetch_upstream_def requests_request_def
      split: option.splits prod.splits)

lemma sent_api_package_version:
  "sent (snd (api_package_version e w name version)) =
     sent w @ [\<lparr>rq_method = ''get'',
                rq_url = rstrip_slash (real_pub e) @ ''/api/packages/'' @ name @ ''/versions/'' @
                         version @ ''.json'',
                rq_params = None, rq_headers = None, rq_data = None, rq_stream = False,
                rq_timeout = 30\<rparr>]"
  by (simp add: api_package_version_def fetch_upstream_def requests_request_def
      split: option.splits prod.splits)

lemma sent_archive_miss:
  "sent (snd (archive_miss e w name version)) =
     sent w @ [\<lparr>rq_method = ''get'', rq_url = rstrip_slash (real_pub e) @ upstream_path name version,
                rq_params = None, rq_headers = None, rq_data = None, rq_stream = True,
                rq_timeout = 30\<rparr>]"
  by (simp add: archive_miss_def fetch_upstream_def requests_request_def
      split: option.splits prod.splits stored.splits)

lemma sent_proxy_fallback:
  "sent (snd (proxy_fallback e w path rq)) =
     sent w @ [\<lparr>rq_method = in_method rq,
                rq_url = rstrip_slash (real_pub e) @ ''/'' @ path,
                rq_params = Some (in_args rq),
                rq_headers = Some (dict_of (filter (\<lambda>(k, v). lower k \<noteq> ''host'') (in_headers rq))),
                rq_data = Some (in_data rq),
                rq_stream = True,
                rq_timeout = 30\<rparr>]"
  by (simp add: proxy_fallback_def requests_request_def iter_content_def fresh_stream_def
      split: option.splits prod.splits)

lemma upstream_offline: "upstream offline rq = None"
  by (simp add: offline_def example_env_def)

text \<open>
  C7: in each of the five handlers that contact the upstream, when the request the handler
  sends (the last one in the log) meets a transport failure, the response is
  \<^verbatim>\<open>abort(502)\<close> and the cache is what it was before the request. The archive handler
  contacts the upstream only after a miss.
\<close>

theorem transport_failure_502:
  "(upstream e (last (sent (snd (api_package e w name)))) = None \<longrightarrow>
      fst (api_package e w name) = Abort 502 \<and> fs (snd (api_package e w name)) = fs w) \<and>
   (upstream e (last (sent (snd (api_package_version e w name version)))) = None \<longrightarrow>
      fst (api_package_version e w name version) = Abort 502 \<and>
      fs (snd (api_package_version e w name version)) = fs w) \<and>
   (cached_tar (fs w) name version = None \<and>
    upstream e (last (sent (snd (package_archive e w name version)))) = None \<longrightarrow>
      fst (package_archive e w name version) = Abort 502 \<and>
      fs (snd (package_archive e w name version)) = fs w) \<and>
   (upstream e (last (sent (snd (admin_prefetch e w name version)))) = None \<longrightarrow>
      fst (admin_prefetch e w name version) = Abort 502 \<and>
      fs (snd (admin_prefetch e w name version)) = fs w) \<and>
   (upstream e (last (sent (snd (proxy_fallback e w path rq)))) = None \<longrightarrow>
      fst (proxy_fallback e w path rq) = Abort 502 \<and>
      fs (snd (proxy_fallback e w path rq)) = fs w)"
proof (intro conjI impI)
  assume "upstream e (last (sent (snd (api_package e w name)))) = None"
  then show "fst (api_package e w name) = Abort 502" "fs (snd (api_package e w name)) = fs w"
    unfolding sent_api_package
    by (simp_all add: api_package_def fetch_upstream_def requests_request_def)
next
  assume "upstream e (last (sent (snd (api_package_version e w name version)))) = None"
  then show "fst (api_package_version e w name version) = Abort 502"
    "fs (snd (api_package_version e w name version)) = fs w"
    unfolding sent_api_package_version
    by (simp_all add: api_package_version_def fetch_upstream_def requests_request_def)
next
  assume a: "cached_tar (fs w) name version = None \<and>
    upstream e (last (sent (snd (package_archive e w name version)))) = None"
  then have m: "package_archive e w name version = archive_miss e w name version"
    by (simp add: package_archive_miss)
  from a have "upstream e (last (sent (snd (archive_miss e w name version)))) = None"
    unfolding m by simp
  then show "fst (package_archive e w name version) = Abort 502"
    "fs (snd (package_archive e w name version)) = fs w"
    unfolding m sent_archive_miss
    by (simp_all add: archive_miss_def fetch_upstream_def requests_request_def)
next
  assume "upstream e (last (sent (snd (admin_prefetch e w name version)))) = None"
  then show "fst (admin_prefetch e w name version) = Abort 502"
    "fs (snd (admin_prefetch e w name version)) = fs w"
    unfolding sent_admin_prefetch
    by (simp_all add: admin_prefetch_def fetch_upstream_def requests_request_def)
next
  assume "upstream e (last (sent (snd (proxy_fallback e w path rq)))) = None"
  then show "fst (proxy_fallback e w path rq) = Abort 502"
    "fs (snd (proxy_fallback e w path rq)) = fs w"
    unfolding sent_proxy_fallback
    by (simp_all add: proxy_fallback_def requests_request_def)
qed

theorem transport_failure_502_witness:
  "fst (api_package offline empty_world ''foo'') = Abort 502 \<and>
   fs (snd (api_package offline empty_world ''foo'')) = Map.empty \<and>
   fst (api_package_version offline empty_world ''foo'' ''1.0.0'') = Abort 502 \<and>
   fs (snd (api_package_version offline empty_world ''foo'' ''1.0.0'')) = Map.empty \<and>
   fst (package_archive offline empty_world ''foo'' ''1.0.0'') = Abort 502 \<and>
   fs (snd (package_archive offline empty_world ''foo'' ''1.0.0'')) = Map.empty \<and>
   fst (admin_prefetch offline empty_world ''foo'' ''1.0.0'') = Abort 502 \<and>
   fs (snd (admin_prefetch offline empty_world ''foo'' ''1.0.0'')) = Map.empty \<and>
   fst (proxy_fallback offline empty_world ''help''
          \<lparr>in_method = ''GET'', in_headers = [(''Host'', ''proxy''), (''Accept'', ''text/html'')],
           in_args = [], in_data = []\<rparr>) = Abort 502 \<and>
   fs (snd (proxy_fallback offline empty_world ''help''
          \<lparr>in_method = ''GET'', in_headers = [(''Host'', ''proxy''), (''Accept'', ''text/html'')],
           in_args = [], in_data = []\<rparr>)) = Map.empty"
proof -
  have miss: "cached_tar (fs empty_world) ''foo'' ''1.0.0'' = None"
    by (simp add: cached_tar_def empty_world_def isdir_ver_def)
  have e: "fs empty_world = Map.empty"
    by (simp add: empty_world_def)
  show ?thesis
    using transport_failure_502 [of offline empty_world "''foo''" "''1.0.0''" "''help''"
        "\<lparr>in_method = ''GET'', in_headers = [(''Host'', ''proxy''), (''Accept'', ''text/html'')],
           in_args = [], in_data = []\<rparr>"] miss
    unfolding upstream_offline e by blast
qed

subsection \<open>The generic fallback\<close>










subsection \<open>The metadata endpoints\<close>

lemma fetch_buffered:
  assumes "fst (fetch_upstream e w path False ps hs m dt) = Some r"
  shows "content r = Some (concat (body_chunks r))"
  using assms
  by (auto simp: fetch_upstream_def requests_request_def content_def split: option.splits if_splits)

lemma metadata_200:
  assumes "fst (fetch_upstream e w path False None None ''get'' None) = Some r"
    and "status_code r = 200"
    and "loads e (concat (body_chunks r)) = Some data"
  shows "Option.bind (content r) (loads e) = Some data"
  using fetch_buffered [OF assms(1)] assms(3) by simp

lemma api_package_200:
  assumes fetch: "fst (fetch_upstream e w (''/api/packages/'' @ name) False None None ''get'' None) = Some r"
    and ok: "status_code r = 200"
    and doc: "loads e (concat (body_chunks r)) = Some data"
  shows "fst (api_package e w name) =
           (case rewrite_package (url_for e) name data of
              None \<Rightarrow> Internal_error
            | Some data' \<Rightarrow> Jsonify data' 200)"
proof -
  obtain ro w1 where f: "fetch_upstream e w (''/api/packages/'' @ name) False None None ''get'' None = (ro, w1)"
    by (cases "fetch_upstream e w (''/api/packages/'' @ name) False None None ''get'' None")
  with fetch have ro: "ro = Some r" by simp
  from f show ?thesis
    by (simp add: api_package_def ro ok metadata_200 [OF fetch ok doc] split: option.splits)
qed

lemma api_package_version_200:
  assumes fetch: "fst (fetch_upstream e w (''/api/packages/'' @ name @ ''/versions/'' @ version @ ''.json'')
                        False None None ''get'' None) = Some r"
    and ok: "status_code r = 200"
    and doc: "loads e (concat (body_chunks r)) = Some data"
  shows "fst (api_package_version e w name version) =
           (case set_archive_url (url_for e name (JStr version)) data of
              None \<Rightarrow> Internal_error
            | Some data' \<Rightarrow> Jsonify data' 200)"
proof -
  obtain ro w1 where f: "fetch_upstream e w (''/api/packages/'' @ name @ ''/versions/'' @ version @ ''.json'')
                        False None None ''get'' None = (ro, w1)"
    by (cases "fetch_upstream e w (''/api/packages/'' @ name @ ''/versions/'' @ version @ ''.json'')
                        False None None ''get'' None")
  with fetch have ro: "ro = Some r" by simp
  from f show ?thesis
    by (simp add: api_package_version_def ro ok metadata_200 [OF fetch ok doc] split: option.splits)
qed

lemma rewrite_versions_objects:
  "rewrite_versions uf name (map JObj es) =
     Some (map (\<lambda>en. JObj (if has_version en
                             then AList.update ''archive_url''
                                    (JStr (uf name (the (map_of en ''version'')))) en
                             else en)) es)"
  by (induction es) (auto simp: rewrite_entry_def has_version_def split: option.splits)

lemma filter_key_update:
  "distinct (map fst al) \<Longrightarrow> filter (\<lambda>(k', v'). k' = k) (AList.update k v al) = [(k, v)]"
proof (induction al)
  case Nil
  then show ?case by simp
next
  case (Cons p al)
  obtain k' v' where p: "p = (k', v')" by (cases p)
  show ?case
  proof (cases "k' = k")
    case True
    with Cons.prems p have "k \<notin> fst ` set al" by auto
    then have "filter (\<lambda>(k', v'). k' = k) al = []"
      by (force simp: filter_empty_conv)
    with True p show ?thesis by simp
  next
    case False
    with Cons p show ?thesis by simp
  qed
qed

lemma fetch_constant_buffered:
  "\<not> body_broken r \<Longrightarrow>
   fst (fetch_upstream (example_env (\<lambda>rq. Some r) d dec) w path False ps hs m dt) = Some r"
  by (simp add: fetch_upstream_def requests_request_def example_env_def)

text \<open>
  C4, as the claim states it, fails: the loop skips an entry whose version is missing or
  falsy (\<^verbatim>\<open>if not ver: continue\<close>). Of the two version entries of this document, each
  carrying an archive link, the second has no version, and its link is returned as it
  came from the upstream.
\<close>

theorem unversioned_entry_counterexample:
  "fst (api_package
         (example_env (\<lambda>rq. Some (ok_reply [''{...}''])) no_faults
            (\<lambda>b. Some (JObj [(''versions'', JArr
               [JObj [(''version'', JStr ''1.0.0''),
                      (''archive_url'', JStr ''https://pub.dev/packages/foo/versions/1.0.0.tar.gz'')],
                JObj [(''archive_url'', JStr ''https://pub.dev/packages/foo/versions/1.1.0.tar.gz'')]])])))
         empty_world ''foo'') =
     Jsonify (JObj [(''versions'', JArr
               [JObj [(''version'', JStr ''1.0.0''),
                      (''archive_url'', JStr ''http://proxy/packages/foo/versions/1.0.0.tar.gz'')],
                JObj [(''archive_url'', JStr ''https://pub.dev/packages/foo/versions/1.1.0.tar.gz'')]])])
       200"
  by (simp add: api_package_def fetch_upstream_def requests_request_def example_env_def
      ok_reply_def content_def rewrite_package_def rewrite_entry_def set_versions_def
      example_url_for_def)

text \<open>
  C4, amended. The upstream answers the package request with status 200 and a document
  whose \<^verbatim>\<open>versions\<close> is a list of N dictionaries. Then the response is the document with
  the same N entries in the same order, where every entry that has a version has its
  \<^verbatim>\<open>archive_url\<close> set to the proxy URL that \<^verbatim>\<open>url_for\<close> builds for that version, and
  every entry without one is as it came. When all N entries have a version (and the keys
  of an entry are distinct, as in every decoded object), the archive links of the returned
  document are exactly the N proxy URLs. Every other key of an entry and every other key
  of the document has the value it had.
\<close>

theorem package_archive_urls_rewritten:
  assumes fetch: "fst (fetch_upstream e w (''/api/packages/'' @ name) False None None ''get'' None) = Some r"
    and ok: "status_code r = 200"
    and doc: "loads e (concat (body_chunks r)) = Some (JObj kv)"
    and vs: "map_of kv ''versions'' = Some (JArr (map JObj es))"
  shows
    "fst (api_package e w name) =
       Jsonify (JObj (AList.update ''versions''
          (JArr (map (\<lambda>en. JObj (if has_version en
                                  then AList.update ''archive_url''
                                         (JStr (url_for e name (the (map_of en ''version'')))) en
                                  else en)) es))
          kv)) 200 \<and>
     ((\<forall>en\<in>set es. has_version en \<and> distinct (map fst en)) \<longrightarrow>
        archive_links (JObj (AList.update ''versions''
          (JArr (map (\<lambda>en. JObj (if has_version en
                                  then AList.update ''archive_url''
                                         (JStr (url_for e name (the (map_of en ''version'')))) en
                                  else en)) es))
          kv)) =
        map (\<lambda>en. JStr (url_for e name (the (map_of en ''version'')))) es) \<and>
     (\<forall>en k. k \<noteq> ''archive_url'' \<longrightarrow>
        map_of (if has_version en
                then AList.update ''archive_url''
                       (JStr (url_for e name (the (map_of en ''version'')))) en
                else en) k = map_of en k) \<and>
     (\<forall>k. k \<noteq> ''versions'' \<longrightarrow>
        map_of (AList.update ''versions''
          (JArr (map (\<lambda>en. JObj (if has_version en
                                  then AList.update ''archive_url''
                                         (JStr (url_for e name (the (map_of en ''version'')))) en
                                  else en)) es))
          kv) k = map_of kv k)"
proof -
  let ?out = "\<lambda>en. JObj (if has_version en
                                  then AList.update ''archive_url''
                                         (JStr (url_for e name (the (map_of en ''version'')))) en
                                  else en)"
  have "rewrite_package (url_for e) name (JObj kv) =
      Some (JObj (AList.update ''versions'' (JArr (map ?out es)) kv))"
    by (simp add: rewrite_package_def vs rewrite_versions_objects set_versions_def)
  then have a: "fst (api_package e w name) =
       Jsonify (JObj (AList.update ''versions'' (JArr (map ?out es)) kv)) 200"
    using api_package_200 [OF fetch ok doc] by simp
  have b: "archive_links (JObj (AList.update ''versions'' (JArr (map ?out es)) kv)) =
        map (\<lambda>en. JStr (url_for e name (the (map_of en ''version'')))) es"
    if d: "\<forall>en\<in>set es. has_version en \<and> distinct (map fst en)"
  proof -
    have "concat (map entry_links (map ?out es)) =
          map (\<lambda>en. JStr (url_for e name (the (map_of en ''version'')))) es"
      using d by (induction es) (simp_all add: filter_key_update)
    then show ?thesis
      by (simp add: archive_links_def update_conv')
  qed
  from a b show ?thesis
    by (simp add: update_conv')
qed

theorem package_archive_urls_rewritten_witness:
  "fst (api_package (example_env (\<lambda>rq. Some (ok_reply [''{...}''])) no_faults (\<lambda>b. Some (JObj foo_doc)))
         empty_world ''foo'') =
     Jsonify (JObj [(''name'', JStr ''foo''),
        (''versions'', JArr
           [JObj [(''version'', JStr ''1.0.0''),
                  (''archive_url'', JStr ''http://proxy/packages/foo/versions/1.0.0.tar.gz'')],
            JObj [(''version'', JStr ''1.1.0''),
                  (''archive_url'', JStr ''http://proxy/packages/foo/versions/1.1.0.tar.gz''),
                  (''published'', JStr ''2024-01-01'')]]),
        (''isDiscontinued'', JBool False)]) 200 \<and>
   archive_links (JObj [(''name'', JStr ''foo''),
        (''versions'', JArr
           [JObj [(''version'', JStr ''1.0.0''),
                  (''archive_url'', JStr ''http://proxy/packages/foo/versions/1.0.0.tar.gz'')],
            JObj [(''version'', JStr ''1.1.0''),
                  (''archive_url'', JStr ''http://proxy/packages/foo/versions/1.1.0.tar.gz''),
                  (''published'', JStr ''2024-01-01'')]]),
        (''isDiscontinued'', JBool False)]) =
     [JStr ''http://proxy/packages/foo/versions/1.0.0.tar.gz'',
      JStr ''http://proxy/packages/foo/versions/1.1.0.tar.gz'']"
proof -
  let ?e = "example_env (\<lambda>rq. Some (ok_reply [''{...}''])) no_faults (\<lambda>b. Some (JObj foo_doc))"
  have fetch: "fst (fetch_upstream ?e empty_world (''/api/packages/'' @ ''foo'') False None None ''get'' None) =
      Some (ok_reply [''{...}''])"
    by (rule fetch_constant_buffered) (simp add: ok_reply_def)
  have doc: "loads ?e (concat (body_chunks (ok_reply [''{...}'']))) = Some (JObj foo_doc)"
    by (simp add: example_env_def)
  have vs: "map_of foo_doc ''versions'' = Some (JArr (map JObj foo_versions))"
    by (simp add: foo_doc_def)
  have d: "\<forall>en\<in>set foo_versions. has_version en \<and> distinct (map fst en)"
    by (simp add: foo_versions_def has_version_def)
  have out: "AList.update ''versions''
          (JArr (map (\<lambda>en. JObj (if has_version en
                                  then AList.update ''archive_url''
                                         (JStr (url_for ?e ''foo'' (the (map_of en ''version'')))) en
                                  else en))
                   foo_versions)) foo_doc =
      [(''name'', JStr ''foo''),
        (''versions'', JArr
           [JObj [(''version'', JStr ''1.0.0''),
                  (''archive_url'', JStr ''http://proxy/packages/foo/versions/1.0.0.tar.gz'')],
            JObj [(''version'', JStr ''1.1.0''),
                  (''archive_url'', JStr ''http://proxy/packages/foo/versions/1.1.0.tar.gz''),
                  (''published'', JStr ''2024-01-01'')]]),
        (''isDiscontinued'', JBool False)]"
    by (simp add: foo_doc_def foo_versions_def example_env_def example_url_for_def has_version_def)
  have links: "map (\<lambda>en. JStr (url_for ?e ''foo'' (the (map_of en ''version'')))) foo_versions =
     [JStr ''http://proxy/packages/foo/versions/1.0.0.tar.gz'',
      JStr ''http://proxy/packages/foo/versions/1.1.0.tar.gz'']"
    by (simp add: foo_versions_def example_env_def example_url_for_def)
  note pr = package_archive_urls_rewritten [OF fetch status_ok_reply doc vs]
  have a: "fst (api_package ?e empty_world ''foo'') =
     Jsonify (JObj [(''name'', JStr ''foo''),
        (''versions'', JArr
           [JObj [(''version'', JStr ''1.0.0''),
                  (''archive_url'', JStr ''http://proxy/packages/foo/versions/1.0.0.tar.gz'')],
            JObj [(''version'', JStr ''1.1.0''),
                  (''archive_url'', JStr ''http://proxy/packages/foo/versions/1.1.0.tar.gz''),
                  (''published'', JStr ''2024-01-01'')]]),
        (''isDiscontinued'', JBool False)]) 200"
    using pr [THEN conjunct1] unfolding out .
  have b: "archive_links (JObj [(''name'', JStr ''foo''),
        (''versions'', JArr
           [JObj [(''version'', JStr ''1.0.0''),
                  (''archive_url'', JStr ''http://proxy/packages/foo/versions/1.0.0.tar.gz'')],
            JObj [(''version'', JStr ''1.1.0''),
                  (''archive_url'', JStr ''http://proxy/packages/foo/versions/1.1.0.tar.gz''),
                  (''published'', JStr ''2024-01-01'')]]),
        (''isDiscontinued'', JBool False)]) =
     [JStr ''http://proxy/packages/foo/versions/1.0.0.tar.gz'',
      JStr ''http://proxy/packages/foo/versions/1.1.0.tar.gz'']"
    using pr [THEN conjunct2, THEN conjunct1, THEN mp, OF d] unfolding out links .
  show ?thesis
    by (rule conjI [OF a b])
qed

text \<open>
  C10: on a 200 reply whose document is a dictionary, the single-version endpoint returns
  the document with \<^verbatim>\<open>archive_url\<close> bound to the proxy URL of (name, version), whatever
  the document held there: the key is added when it was missing and its old value is
  never read. No other document is returned on a 200 reply: whenever the response is a
  JSON document, it is this one (a reply that is not a dictionary ends in a 500).
\<close>

theorem version_archive_url_set:
  assumes fetch: "fst (fetch_upstream e w (''/api/packages/'' @ name @ ''/versions/'' @ version @ ''.json'')
                        False None None ''get'' None) = Some r"
    and ok: "status_code r = 200"
    and doc: "loads e (concat (body_chunks r)) = Some data"
  shows
    "(\<forall>kv. data = JObj kv \<longrightarrow>
        fst (api_package_version e w name version) =
          Jsonify (JObj (AList.update ''archive_url'' (JStr (url_for e name (JStr version))) kv)) 200 \<and>
        map_of (AList.update ''archive_url'' (JStr (url_for e name (JStr version))) kv) =
          (map_of kv)(''archive_url'' \<mapsto> JStr (url_for e name (JStr version)))) \<and>
     (\<forall>d st. fst (api_package_version e w name version) = Jsonify d st \<longrightarrow>
        st = 200 \<and>
        (\<exists>kv. data = JObj kv \<and>
              d = JObj (AList.update ''archive_url'' (JStr (url_for e name (JStr version))) kv)))"
  using api_package_version_200 [OF fetch ok doc]
  by (auto simp: set_archive_url_def update_conv' split: json.splits)

theorem version_archive_url_set_witness:
  "fst (api_package_version
         (example_env (\<lambda>rq. Some (ok_reply [''{...}''])) no_faults
            (\<lambda>b. Some (JObj [(''version'', JStr ''1.0.0'')])))
         empty_world ''foo'' ''1.0.0'') =
     Jsonify (JObj [(''version'', JStr ''1.0.0''),
                    (''archive_url'', JStr ''http://proxy/packages/foo/versions/1.0.0.tar.gz'')]) 200 \<and>
   fst (api_package_version
         (example_env (\<lambda>rq. Some (ok_reply [''{...}''])) no_faults
            (\<lambda>b. Some (JObj [(''archive_url'', JInt 7), (''version'', JStr ''1.0.0'')])))
         empty_world ''foo'' ''1.0.0'') =
     Jsonify (JObj [(''archive_url'', JStr ''http://proxy/packages/foo/versions/1.0.0.tar.gz''),
                    (''version'', JStr ''1.0.0'')]) 200"
proof -
  let ?e1 = "example_env (\<lambda>rq. Some (ok_reply [''{...}''])) no_faults
            (\<lambda>b. Some (JObj [(''version'', JStr ''1.0.0'')]))"
  let ?e2 = "example_env (\<lambda>rq. Some (ok_reply [''{...}''])) no_faults
            (\<lambda>b. Some (JObj [(''archive_url'', JInt 7), (''version'', JStr ''1.0.0'')]))"
  have nb: "\<not> body_broken (ok_reply [''{...}''])"
    by (simp add: ok_reply_def)
  have f1: "fst (fetch_upstream ?e1 empty_world
      (''/api/packages/'' @ ''foo'' @ ''/versions/'' @ ''1.0.0'' @ ''.json'') False None None ''get'' None) =
      Some (ok_reply [''{...}''])"
    by (rule fetch_constant_buffered [OF nb])
  have f2: "fst (fetch_upstream ?e2 empty_world
      (''/api/packages/'' @ ''foo'' @ ''/versions/'' @ ''1.0.0'' @ ''.json'') False None None ''get'' None) =
      Some (ok_reply [''{...}''])"
    by (rule fetch_constant_buffered [OF nb])
  have doc1: "loads ?e1 (concat (body_chunks (ok_reply [''{...}'']))) =
      Some (JObj [(''version'', JStr ''1.0.0'')])"
    by (simp add: example_env_def)
  have doc2: "loads ?e2 (concat (body_chunks (ok_reply [''{...}'']))) =
      Some (JObj [(''archive_url'', JInt 7), (''version'', JStr ''1.0.0'')])"
    by (simp add: example_env_def)
  have out: "AList.update ''archive_url'' (JStr (url_for ?e1 ''foo'' (JStr ''1.0.0'')))
       [(''version'', JStr ''1.0.0'')] =
     [(''version'', JStr ''1.0.0''),
      (''archive_url'', JStr ''http://proxy/packages/foo/versions/1.0.0.tar.gz'')]"
    "AList.update ''archive_url'' (JStr (url_for ?e2 ''foo'' (JStr ''1.0.0'')))
       [(''archive_url'', JInt 7), (''version'', JStr ''1.0.0'')] =
     [(''archive_url'', JStr ''http://proxy/packages/foo/versions/1.0.0.tar.gz''),
      (''version'', JStr ''1.0.0'')]"
    by (simp_all add: example_env_def example_url_for_def)
  have a: "fst (api_package_version ?e1 empty_world ''foo'' ''1.0.0'') =
     Jsonify (JObj [(''version'', JStr ''1.0.0''),
                    (''archive_url'', JStr ''http://proxy/packages/foo/versions/1.0.0.tar.gz'')]) 200"
    using version_archive_url_set [OF f1 status_ok_reply doc1, THEN conjunct1, THEN spec,
        THEN mp, OF refl, THEN conjunct1]
    unfolding out .
  have b: "fst (api_package_version ?e2 empty_world ''foo'' ''1.0.0'') =
     Jsonify (JObj [(''archive_url'', JStr ''http://proxy/packages/foo/versions/1.0.0.tar.gz''),
                    (''version'', JStr ''1.0.0'')]) 200"
    using version_archive_url_set [OF f2 status_ok_reply doc2, THEN conjunct1, THEN spec,
        THEN mp, OF refl, THEN conjunct1]
    unfolding out .
  show ?thesis
    by (rule conjI [OF a b])
qed

end
